theory Spec2Isabelle
  imports Complex_Main
begin

section \<open>JavaScript values\<close>

text \<open>
  The component SheetMusicOutput.jsx stores numbers, booleans and \<open>undefined\<close> in its
  fields. A number is a finite rational, an infinity or NaN. Sums, products and quotients
  are rounded as binary64 arithmetic rounds them: to the nearest double, ties to the
  even significand, overflowing to an infinity and underflowing through the subnormals
  to zero. The sign of zero is not represented. Every field starts \<open>undefined\<close> unless
  the constructor assigns it.
\<close>

datatype number = Finite rat | PosInfinity | NegInfinity | NaN

text \<open>Rounding to the nearest integer, ties to the even one.\<close>

definition round_half_even :: "rat \<Rightarrow> int" where
  "round_half_even q =
     (let f = \<lfloor>q\<rfloor>; d = q - of_int f
      in if d < 1 / 2 then f else if 1 / 2 < d then f + 1
         else if even f then f else f + 1)"

text \<open>The number of binary digits of a positive integer.\<close>

function bitlen :: "int \<Rightarrow> nat" where
  "bitlen n = (if 0 < n then Suc (bitlen (n div 2)) else 0)"
  by pat_completeness auto
termination
  by (relation "measure nat") auto

declare bitlen.simps [simp del]

text \<open>For a positive rational \<open>x\<close>, the integer \<open>k\<close> with \<open>2^k \<le> x < 2^(k+1)\<close>.\<close>

definition ilog2 :: "rat \<Rightarrow> int" where
  "ilog2 x =
     (let (p, q) = quotient_of x;
          k = int (bitlen p) - int (bitlen q)
      in if power_int 2 k \<le> x then k else k - 1)"

text \<open>The double nearest to a rational: 53 significant bits, the least exponent -1074,
  and an infinity from \<open>2^1024\<close> on.\<close>

definition round64 :: "rat \<Rightarrow> number" where
  "round64 a =
     (if a = 0 then Finite 0
      else let x = \<bar>a\<bar>;
               e = max (ilog2 x - 52) (- 1074);
               r = of_int (round_half_even (x / power_int 2 e)) * power_int 2 e
           in if power_int 2 1024 \<le> r
              then (if 0 < a then PosInfinity else NegInfinity)
              else Finite (if 0 < a then r else - r))"

datatype jsval = Undefined | Boolean bool | Number number

fun ToNumber :: "jsval \<Rightarrow> number" where
  "ToNumber Undefined = NaN"
| "ToNumber (Boolean b) = Finite (if b then 1 else 0)"
| "ToNumber (Number n) = n"

fun truthy :: "jsval \<Rightarrow> bool" where
  "truthy Undefined = False"
| "truthy (Boolean b) = b"
| "truthy (Number n) = (n \<noteq> NaN \<and> n \<noteq> Finite 0)"

fun num_neg :: "number \<Rightarrow> number" where
  "num_neg (Finite a) = Finite (- a)"
| "num_neg PosInfinity = NegInfinity"
| "num_neg NegInfinity = PosInfinity"
| "num_neg NaN = NaN"

fun num_add :: "number \<Rightarrow> number \<Rightarrow> number" where
  "num_add NaN _ = NaN"
| "num_add _ NaN = NaN"
| "num_add (Finite a) (Finite b) = round64 (a + b)"
| "num_add PosInfinity NegInfinity = NaN"
| "num_add NegInfinity PosInfinity = NaN"
| "num_add PosInfinity _ = PosInfinity"
| "num_add _ PosInfinity = PosInfinity"
| "num_add NegInfinity _ = NegInfinity"
| "num_add _ NegInfinity = NegInfinity"

fun num_mul :: "number \<Rightarrow> number \<Rightarrow> number" where
  "num_mul NaN _ = NaN"
| "num_mul _ NaN = NaN"
| "num_mul (Finite a) (Finite b) = round64 (a * b)"
| "num_mul (Finite a) PosInfinity =
     (if a = 0 then NaN else if 0 < a then PosInfinity else NegInfinity)"
| "num_mul (Finite a) NegInfinity =
     (if a = 0 then NaN else if 0 < a then NegInfinity else PosInfinity)"
| "num_mul PosInfinity (Finite b) =
     (if b = 0 then NaN else if 0 < b then PosInfinity else NegInfinity)"
| "num_mul NegInfinity (Finite b) =
     (if b = 0 then NaN else if 0 < b then NegInfinity else PosInfinity)"
| "num_mul PosInfinity PosInfinity = PosInfinity"
| "num_mul PosInfinity NegInfinity = NegInfinity"
| "num_mul NegInfinity PosInfinity = NegInfinity"
| "num_mul NegInfinity NegInfinity = PosInfinity"

fun num_div :: "number \<Rightarrow> number \<Rightarrow> number" where
  "num_div NaN _ = NaN"
| "num_div _ NaN = NaN"
| "num_div (Finite a) (Finite b) =
     (if b = 0 then (if a = 0 then NaN else if 0 < a then PosInfinity else NegInfinity)
      else round64 (a / b))"
| "num_div (Finite a) _ = Finite 0"
| "num_div PosInfinity (Finite b) = (if 0 \<le> b then PosInfinity else NegInfinity)"
| "num_div NegInfinity (Finite b) = (if 0 \<le> b then NegInfinity else PosInfinity)"
| "num_div _ _ = NaN"

fun num_lt :: "number \<Rightarrow> number \<Rightarrow> bool" where
  "num_lt NaN _ = False"
| "num_lt _ NaN = False"
| "num_lt (Finite a) (Finite b) = (a < b)"
| "num_lt NegInfinity NegInfinity = False"
| "num_lt NegInfinity _ = True"
| "num_lt _ NegInfinity = False"
| "num_lt PosInfinity _ = False"
| "num_lt _ PosInfinity = True"

text \<open>The operators of the source: unary \<open>-\<close>, \<open>+\<close>, \<open>-\<close>, \<open>*\<close>, \<open>/\<close>, \<open>>\<close>, \<open>>=\<close>
  and \<open>!==\<close>. Each arithmetic operator converts its operands with ToNumber.\<close>

definition js_neg :: "jsval \<Rightarrow> jsval" where
  "js_neg a = Number (num_neg (ToNumber a))"

definition js_add :: "jsval \<Rightarrow> jsval \<Rightarrow> jsval" where
  "js_add a b = Number (num_add (ToNumber a) (ToNumber b))"

definition js_sub :: "jsval \<Rightarrow> jsval \<Rightarrow> jsval" where
  "js_sub a b = Number (num_add (ToNumber a) (num_neg (ToNumber b)))"

definition js_mul :: "jsval \<Rightarrow> jsval \<Rightarrow> jsval" where
  "js_mul a b = Number (num_mul (ToNumber a) (ToNumber b))"

definition js_div :: "jsval \<Rightarrow> jsval \<Rightarrow> jsval" where
  "js_div a b = Number (num_div (ToNumber a) (ToNumber b))"

definition js_gt :: "jsval \<Rightarrow> jsval \<Rightarrow> bool" where
  "js_gt a b = num_lt (ToNumber b) (ToNumber a)"

definition js_ge :: "jsval \<Rightarrow> jsval \<Rightarrow> bool" where
  "js_ge a b =
     (ToNumber a \<noteq> NaN \<and> ToNumber b \<noteq> NaN \<and> \<not> num_lt (ToNumber a) (ToNumber b))"

fun strict_eq :: "jsval \<Rightarrow> jsval \<Rightarrow> bool" where
  "strict_eq Undefined Undefined = True"
| "strict_eq (Boolean a) (Boolean b) = (a = b)"
| "strict_eq (Number a) (Number b) = (a \<noteq> NaN \<and> b \<noteq> NaN \<and> a = b)"
| "strict_eq _ _ = False"

abbreviation num :: "rat \<Rightarrow> jsval" where
  "num r \<equiv> Number (Finite r)"

text \<open>
  The \<open>width\<close> and \<open>height\<close> of a canvas element are unsigned long attributes.
  An assigned value is converted as such (NaN and the infinities to 0, truncation
  towards zero, modulo \<open>2^32\<close>), and a result above 2147483647 is replaced by the
  attribute's default, 300 for the width and 150 for the height.
\<close>

fun num_trunc :: "number \<Rightarrow> int" where
  "num_trunc (Finite a) = (if 0 \<le> a then \<lfloor>a\<rfloor> else - \<lfloor>- a\<rfloor>)"
| "num_trunc _ = 0"

definition ToUint32 :: "jsval \<Rightarrow> int" where
  "ToUint32 v = num_trunc (ToNumber v) mod 2 ^ 32"

definition canvas_size :: "int \<Rightarrow> jsval \<Rightarrow> jsval" where
  "canvas_size dflt v =
     (let n = ToUint32 v in num (of_int (if n \<le> 2147483647 then n else dflt)))"

section \<open>Objects: the React state, setState patches and persisted snapshots\<close>

text \<open>A plain object is a map from property names to values; reading a property that
  is absent gives \<open>undefined\<close>. Object spread and React's shallow merge are \<open>++\<close>.\<close>

type_synonym obj = "string \<rightharpoonup> jsval"

definition prop_get :: "obj \<Rightarrow> string \<Rightarrow> jsval" where
  "prop_get ob k = (case ob k of None \<Rightarrow> Undefined | Some v \<Rightarrow> v)"

section \<open>Collaborators\<close>

text \<open>
  The vendored renderer \<open>MidiSheetMusic.SheetMusic\<close> is not part of the component. Its
  object is a record of the properties the component reads and writes, and of what its
  two queries answer: \<open>ShadeNotes cur prev\<close> is the scroll position returned by
  \<open>sheetMusic.ShadeNotes(cur, prev, true)\<close>, \<open>PulseTimeForPoint x y\<close> the pulse
  returned for a canvas point. Both answers are arbitrary functions.
\<close>

record SheetMusic =
  Width :: jsval
  Height :: jsval
  SelectionStartPulse :: jsval
  SelectionEndPulse :: jsval
  ShadeNotes :: "jsval \<Rightarrow> jsval \<Rightarrow> jsval"
  PulseTimeForPoint :: "jsval \<Rightarrow> jsval \<Rightarrow> jsval"

text \<open>The parsed file handed to loadMidiFile; \<open>newSheetMusic\<close> is the object that
  \<open>new MidiSheetMusic.SheetMusic(getMidiFile(), getMidiOptions())\<close> constructs.\<close>

record parsedMidiFile =
  getPulsesPerMsec :: jsval
  getTotalPulses :: jsval
  getMeasure :: jsval
  newSheetMusic :: SheetMusic

text \<open>Calls that leave the component, in the order they are made: drawing on the two
  canvases, the renderer's methods, the playback controller's \<open>setCurrentMs\<close> and the
  persistence callback \<open>props.saveData\<close>.\<close>

datatype event =
    ClearRect jsval jsval
  | Translate jsval
  | ShadeNotesCall jsval jsval
  | FillRect jsval jsval
  | OnPaint jsval jsval
  | SetZoom
  | SetCurrentMs jsval
  | SaveData obj

datatype error = TypeError

section \<open>The component\<close>

text \<open>
  The fields of \<open>this\<close>, the DOM properties the component reads and writes, and the
  trace of outgoing calls. \<open>props_saveData\<close> tells whether the optional callback
  \<open>props.saveData\<close> was supplied (the source guards every use of it);
  \<open>props.callbacks.setCurrentMs\<close> and the mounted DOM nodes are used unguarded by the
  source and are taken as present. \<open>animations\<close> lists the eased runs started by
  scrollTo as (start, target). React applies setState at once outside its own event
  handlers and defers it inside them: \<open>batching\<close> tells which holds for the running
  call, \<open>pending\<close> holds the deferred patches.
\<close>

record component =
  state :: obj
  pending :: "obj list"
  batching :: bool
  props_saveData :: bool
  prevPlayerTimeMillis :: jsval
  lastScrollPos :: jsval
  currentPulseTime :: jsval
  prevPulseTime :: jsval
  pulsesPerMs :: jsval
  totalPulses :: jsval
  measure_pulses :: jsval
  sheetMusic :: "SheetMusic option"
  isProgrammaticScrolling :: jsval
  isScrolling :: jsval
  scrollTop :: jsval
  canvasShadeNotes_width :: jsval
  canvasShadeNotes_height :: jsval
  canvasMain_width :: jsval
  canvasMain_height :: jsval
  divCanvasScroll_width :: jsval
  divCanvasScroll_height :: jsval
  canvasContainer_height :: jsval
  canvasScrollContents_height :: jsval
  animations :: "(jsval \<times> jsval) list"
  calls :: "event list"

definition emit :: "event \<Rightarrow> component \<Rightarrow> component" where
  "emit e s = s\<lparr>calls := calls s @ [e]\<rparr>"

text \<open>The constructor; the canvases are rendered with width and height 1.\<close>

definition constructor :: "bool \<Rightarrow> component" where
  "constructor saveData_given =
     \<lparr> state = [''selectionStartMs'' \<mapsto> num (- 1), ''selectionEndMs'' \<mapsto> num (- 1),
                 ''selectionStartPulse'' \<mapsto> num 0, ''selectionEndPulse'' \<mapsto> num 0],
       pending = [], batching = False, props_saveData = saveData_given,
       prevPlayerTimeMillis = num 0, lastScrollPos = num (- 1),
       currentPulseTime = Undefined, prevPulseTime = Undefined, pulsesPerMs = Undefined,
       totalPulses = Undefined, measure_pulses = Undefined, sheetMusic = None,
       isProgrammaticScrolling = Undefined, isScrolling = Undefined, scrollTop = num 0,
       canvasShadeNotes_width = num 1, canvasShadeNotes_height = num 1,
       canvasMain_width = num 1, canvasMain_height = num 1,
       divCanvasScroll_width = Undefined, divCanvasScroll_height = Undefined,
       canvasContainer_height = Undefined, canvasScrollContents_height = Undefined,
       animations = [], calls = [] \<rparr>"

definition setState :: "component \<Rightarrow> obj \<Rightarrow> component" where
  "setState s patch =
     (if batching s then s\<lparr>pending := pending s @ [patch]\<rparr>
      else s\<lparr>state := state s ++ patch\<rparr>)"

text \<open>At the end of a React event handler the deferred patches are merged in order.\<close>

definition flush :: "component \<Rightarrow> component" where
  "flush s = s\<lparr>state := foldl (++) (state s) (pending s), pending := []\<rparr>"

definition react_event :: "(component \<Rightarrow> component) \<Rightarrow> component \<Rightarrow> component" where
  "react_event handler s = (flush (handler (s\<lparr>batching := True\<rparr>)))\<lparr>batching := False\<rparr>"

definition clearShadeNotes :: "component \<Rightarrow> component" where
  "clearShadeNotes s = emit (ClearRect (canvasShadeNotes_width s) (canvasShadeNotes_height s)) s"

definition getScrollOffset :: "component \<Rightarrow> jsval" where
  "getScrollOffset s = scrollTop s"

text \<open>scrollTo: behind its guard it records the target and starts one eased run from
  the present scroll offset.\<close>

definition scrollTo :: "component \<Rightarrow> jsval \<Rightarrow> component" where
  "scrollTo s scrollPos =
     (if js_ge scrollPos (num 0) \<and> \<not> strict_eq scrollPos (lastScrollPos s)
         \<and> truthy (prop_get (state s) ''autoScroll'')
      then s\<lparr>lastScrollPos := scrollPos, isScrolling := Boolean True,
              animations := animations s @ [(scrollTop s, scrollPos)]\<rparr>
      else s)"

definition shadeNotes :: "component \<Rightarrow> jsval \<Rightarrow> jsval \<Rightarrow> component" where
  "shadeNotes s currentPulseTime' prevPulseTime' =
     (case sheetMusic s of
        None \<Rightarrow> s
      | Some sm \<Rightarrow>
          (let offset = getScrollOffset s;
               s1 = emit (Translate (js_neg offset)) s;
               scrollPos = ShadeNotes sm currentPulseTime' prevPulseTime';
               s2 = emit (ShadeNotesCall currentPulseTime' prevPulseTime') s1;
               s3 = scrollTo s2 scrollPos
           in emit (Translate offset) s3))"

definition animate :: "component \<Rightarrow> jsval \<Rightarrow> component" where
  "animate s playerTimeMillis =
     (let s1 = s\<lparr>currentPulseTime := js_mul playerTimeMillis (pulsesPerMs s)\<rparr>;
          s2 = shadeNotes s1 (currentPulseTime s1) (prevPulseTime s1)
      in s2\<lparr>prevPulseTime := currentPulseTime s2\<rparr>)"

definition scroll :: "component \<Rightarrow> component" where
  "scroll s =
     (let s1 = clearShadeNotes s;
          s2 = shadeNotes s1 (currentPulseTime s1)
                 (js_sub (currentPulseTime s1) (measure_pulses s1));
          s3 = (if truthy (prop_get (state s2) ''autoScroll'')
                   \<and> \<not> truthy (isProgrammaticScrolling s2)
                then setState s2 [''autoScroll'' \<mapsto> Boolean False] else s2)
      in s3\<lparr>isProgrammaticScrolling := Boolean False\<rparr>)"

definition paintSheetMusic :: "component \<Rightarrow> component" where
  "paintSheetMusic s =
     (case sheetMusic s of
        None \<Rightarrow> s
      | Some sm \<Rightarrow>
          (let s1 = s\<lparr>canvasMain_height := canvas_size 150 (Height sm)\<rparr>;
               s2 = emit (FillRect (canvasMain_width s1) (canvasMain_height s1)) s1;
               s3 = emit (OnPaint (Width sm) (Height sm)) s2;
               s4 = clearShadeNotes s3
           in shadeNotes s4 (currentPulseTime s4)
                (js_sub (currentPulseTime s4) (measure_pulses s4))))"

definition updateSelection :: "component \<Rightarrow> obj \<Rightarrow> component" where
  "updateSelection s currentSelection =
     (case sheetMusic s of
        None \<Rightarrow> s
      | Some sm \<Rightarrow>
          (let s1 = s\<lparr>sheetMusic := Some (sm\<lparr>
                      SelectionStartPulse := prop_get currentSelection ''selectionStartPulse'',
                      SelectionEndPulse := prop_get currentSelection ''selectionEndPulse''\<rparr>)\<rparr>;
               s2 = emit (SetCurrentMs (prop_get (state s1) ''selectionStartMs'')) s1
           in paintSheetMusic s2))"

definition saveData :: "component \<Rightarrow> obj \<Rightarrow> component" where
  "saveData s toMerge =
     (if props_saveData s
      then emit (SaveData
             ([''selectionStartMs'' \<mapsto> prop_get (state s) ''selectionStartMs'',
               ''selectionEndMs'' \<mapsto> prop_get (state s) ''selectionEndMs'',
               ''selectionStartPulse'' \<mapsto> prop_get (state s) ''selectionStartPulse'',
               ''selectionEndPulse'' \<mapsto> prop_get (state s) ''selectionEndPulse'',
               ''autoScroll'' \<mapsto> prop_get (state s) ''autoScroll''] ++ toMerge)) s
      else s)"

text \<open>setSelection(prop) returns a closure; \<open>setSelection name s\<close> is the closure's body.
  The name is \<open>None\<close> for \<open>null\<close> (the clear button) and otherwise the string the
  render method passes, \<open>selectionStart\<close> or \<open>selectionEnd\<close>; the empty string is
  falsy like \<open>null\<close>. \<open>currentSelection\<close> is the object the closure builds first.\<close>

definition currentSelection :: "string option \<Rightarrow> component \<Rightarrow> obj" where
  "currentSelection name s =
     (let given = (name \<noteq> None \<and> name \<noteq> Some []);
          selection0 =
            [''selectionStartMs'' \<mapsto>
               (if given then prop_get (state s) ''selectionStartMs'' else num (- 1)),
             ''selectionEndMs'' \<mapsto>
               (if given then prop_get (state s) ''selectionEndMs'' else num (- 1)),
             ''selectionStartPulse'' \<mapsto>
               (if given then prop_get (state s) ''selectionStartPulse'' else num 0),
             ''selectionEndPulse'' \<mapsto>
               (if given then prop_get (state s) ''selectionEndPulse'' else num 0)]
      in if given
         then selection0
                (the name @ ''Ms'' \<mapsto> prop_get (state s) ''lastClickMs'',
                 the name @ ''Pulse'' \<mapsto> prop_get (state s) ''lastClickPulse'')
         else selection0)"

definition setSelection :: "string option \<Rightarrow> component \<Rightarrow> component" where
  "setSelection name s =
     (let selection = currentSelection name s;
          s1 = setState s selection;
          s2 = updateSelection s1 selection;
          s3 = saveData s2 selection
      in if props_saveData s3 then emit (SaveData selection) s3 else s3)"

definition handleAutoScrollClick :: "component \<Rightarrow> bool \<Rightarrow> component" where
  "handleAutoScrollClick s checked =
     (let updatedState = [''autoScroll'' \<mapsto> Boolean checked];
          s1 = setState s updatedState
      in saveData s1 updatedState)"

definition loadData :: "component \<Rightarrow> obj \<Rightarrow> component" where
  "loadData s data = updateSelection (setState s data) data"

definition noteOff :: "component \<Rightarrow> component" where
  "noteOff s =
     (if js_ge (prop_get (state s) ''selectionStartMs'') (num 0)
         \<and> js_ge (prop_get (state s) ''selectionEndMs'') (num 0)
      then (if js_gt (js_div (currentPulseTime s) (pulsesPerMs s))
                  (prop_get (state s) ''selectionEndMs'')
            then emit (SetCurrentMs (prop_get (state s) ''selectionStartMs'')) s
            else s)
      else s)"

text \<open>click: the overlay is cleared first; with no renderer object the property access
  \<open>this.sheetMusic.PulseTimeForPoint\<close> throws a TypeError.\<close>

definition click :: "component \<Rightarrow> jsval \<Rightarrow> jsval \<Rightarrow> error + component" where
  "click s offsetX offsetY =
     (let s1 = clearShadeNotes s in
      case sheetMusic s1 of
        None \<Rightarrow> Inl TypeError
      | Some sm \<Rightarrow>
          (let s2 = s1\<lparr>currentPulseTime := PulseTimeForPoint sm offsetX offsetY\<rparr>;
               s3 = s2\<lparr>prevPulseTime := js_sub (currentPulseTime s2) (measure_pulses s2)\<rparr>;
               s4 = (if js_gt (currentPulseTime s3) (totalPulses s3)
                     then s3\<lparr>currentPulseTime :=
                               js_sub (currentPulseTime s3) (measure_pulses s3)\<rparr>
                     else s3);
               lastClickMs = js_div (currentPulseTime s4) (pulsesPerMs s4);
               s5 = emit (SetCurrentMs lastClickMs) s4;
               s6 = shadeNotes s5 (currentPulseTime s5) (prevPulseTime s5)
           in Inr (setState s6 [''isSelecting'' \<mapsto> Boolean True,
                                ''lastClickMs'' \<mapsto> lastClickMs,
                                ''lastClickPulse'' \<mapsto> currentPulseTime s6])))"

text \<open>initSheetMusic reads \<open>window.innerHeight\<close> and the top of the scroll container's
  bounding rectangle; both are arguments here. The canvas sizes are stored as the
  canvas attributes store them; the CSS lengths are kept as numbers of pixels.\<close>

definition initSheetMusic :: "component \<Rightarrow> jsval \<Rightarrow> jsval \<Rightarrow> component" where
  "initSheetMusic s innerHeight rectTop =
     (case sheetMusic s of
        None \<Rightarrow> s
      | Some sm \<Rightarrow>
          (let canvasHeight = js_sub innerHeight rectTop;
               s1 = s\<lparr>canvasShadeNotes_width := canvas_size 300 (Width sm),
                       canvasShadeNotes_height := canvas_size 150 canvasHeight,
                       canvasMain_width := canvas_size 300 (Width sm),
                       divCanvasScroll_width := js_add (Width sm) (num 20),
                       divCanvasScroll_height := canvasHeight,
                       canvasContainer_height := canvasHeight,
                       canvasScrollContents_height := Height sm\<rparr>
           in updateSelection s1 (state s1)))"

text \<open>loadMidiFile: the body that runs once the images are preloaded.\<close>

definition loadMidiFile :: "component \<Rightarrow> parsedMidiFile \<Rightarrow> jsval \<Rightarrow> jsval \<Rightarrow> component" where
  "loadMidiFile s file innerHeight rectTop =
     (let s1 = s\<lparr>pulsesPerMs := getPulsesPerMsec file,
                  totalPulses := getTotalPulses file,
                  measure_pulses := getMeasure file,
                  sheetMusic := Some (newSheetMusic file)\<rparr>;
          s2 = emit SetZoom s1
      in initSheetMusic s2 innerHeight rectTop)"

section \<open>The eased scroll run\<close>

text \<open>Modelled from the spec: \<open>util/lerp\<close> is imported by the component but its file
  is not among the sources; the spec gives \<open>lerp(start, end, t) = start + (end - start) * t\<close>.\<close>

definition lerp :: "jsval \<Rightarrow> jsval \<Rightarrow> jsval \<Rightarrow> jsval" where
  "lerp a b t = js_add a (js_mul (js_sub b a) t)"

text \<open>The listener scrollTo attaches to the eased timer: each \<open>data\<close> tick of a run
  marks the scroll as programmatic and writes the interpolated offset.\<close>

definition easing_data :: "component \<Rightarrow> jsval \<times> jsval \<Rightarrow> jsval \<Rightarrow> component" where
  "easing_data s run data =
     s\<lparr>isProgrammaticScrolling := Boolean True,
       scrollTop := lerp (fst run) (snd run) data\<rparr>"

section \<open>Reading the trace\<close>

text \<open>\<open>persisted s\<close> lists the calls of \<open>props.saveData\<close> in the trace, in order.\<close>

fun is_SaveData :: "event \<Rightarrow> bool" where
  "is_SaveData (SaveData payload) = True"
| "is_SaveData _ = False"

abbreviation persisted :: "component \<Rightarrow> event list" where
  "persisted s \<equiv> filter is_SaveData (calls s)"

section \<open>Concrete sessions\<close>

text \<open>A file with two pulses per millisecond and a measure of 50 pulses, loaded into a
  fresh component in a window 600 pixels high. The renderer maps a point to five pulses
  per pixel of height and always proposes the scroll position 40.\<close>

definition demo_sheet :: SheetMusic where
  "demo_sheet =
     \<lparr> Width = num 800, Height = num 2000,
       SelectionStartPulse = num 0, SelectionEndPulse = num 0,
       ShadeNotes = (\<lambda>cur prev. num 40),
       PulseTimeForPoint = (\<lambda>x y. js_mul y (num 5)) \<rparr>"

definition demo_file :: parsedMidiFile where
  "demo_file =
     \<lparr> getPulsesPerMsec = num 2, getTotalPulses = num 10000, getMeasure = num 50,
       newSheetMusic = demo_sheet \<rparr>"

definition demo_loaded :: component where
  "demo_loaded = loadMidiFile (constructor True) demo_file (num 600) (num 0)"

text \<open>The loaded session after playback ticks at 100 ms and 150 ms; with the auto-scroll
  box ticked; and with a selection from 1000 ms to 2000 ms loaded.\<close>

definition demo_ticked :: component where
  "demo_ticked = animate (animate demo_loaded (num 100)) (num 150)"

definition demo_auto :: component where
  "demo_auto = handleAutoScrollClick demo_loaded True"

definition demo_selected :: component where
  "demo_selected =
     loadData demo_loaded
       [''selectionStartMs'' \<mapsto> num 1000, ''selectionEndMs'' \<mapsto> num 2000,
        ''selectionStartPulse'' \<mapsto> num 2000, ''selectionEndPulse'' \<mapsto> num 4000]"

text \<open>A mounted component with auto-scroll ticked and no file loaded yet.\<close>

definition demo_unloaded :: component where
  "demo_unloaded = handleAutoScrollClick (constructor True) True"

section \<open>Rounding is exact on integers\<close>

text \<open>An integer below \<open>2^53\<close> in absolute value is a double, so rounding returns it.\<close>

lemma bitlen_bounds: "0 < n \<Longrightarrow> (2::int) ^ (bitlen n - 1) \<le> n \<and> n < 2 ^ bitlen n"
proof (induction n rule: bitlen.induct)
  case (1 n)
  show ?case
  proof (cases "n = 1")
    case True
    then show ?thesis by (simp add: bitlen.simps [of 1] bitlen.simps [of 0])
  next
    case False
    with "1.prems" have pos: "0 < n div 2" by simp
    from "1.IH" [OF "1.prems" pos]
    have ih: "2 ^ (bitlen (n div 2) - 1) \<le> n div 2" "n div 2 < 2 ^ bitlen (n div 2)"
      by simp_all
    have b: "bitlen n = Suc (bitlen (n div 2))"
      using "1.prems" by (simp add: bitlen.simps [of n])
    have bpos: "0 < bitlen (n div 2)"
      using pos by (simp add: bitlen.simps [of "n div 2"])
    have "(2::int) ^ bitlen (n div 2) = 2 * 2 ^ (bitlen (n div 2) - 1)"
      using bpos by (cases "bitlen (n div 2)") simp_all
    moreover have "2 * (n div 2) \<le> n" by simp
    moreover have "n < 2 * (n div 2) + 2" by presburger
    ultimately show ?thesis using ih by (simp add: b)
  qed
qed

lemma round_half_even_of_int: "round_half_even (of_int m) = m"
  by (simp add: round_half_even_def)

lemma bitlen_one: "bitlen 1 = 1"
  by (simp add: bitlen.simps [of 1] bitlen.simps [of 0])

lemma ilog2_of_int:
  assumes "0 < n"
  shows "ilog2 (of_int n) = int (bitlen n) - 1"
proof -
  have q: "quotient_of (of_int n) = (n, 1)" by simp
  have "(2::int) ^ (bitlen n - 1) \<le> n" using bitlen_bounds [OF assms] by simp
  then have "(of_int ((2::int) ^ (bitlen n - 1)) :: rat) \<le> of_int n"
    by (simp only: of_int_le_iff)
  moreover have "0 < bitlen n" using assms by (simp add: bitlen.simps [of n])
  ultimately have "power_int (2::rat) (int (bitlen n) - 1) \<le> of_int n"
    by (simp add: power_int_def nat_diff_distrib')
  then show ?thesis by (simp add: ilog2_def q bitlen_one)
qed

lemma bitlen_le_53:
  assumes "0 < n" "n < 2 ^ 53"
  shows "bitlen n \<le> 53"
proof (rule ccontr)
  assume "\<not> bitlen n \<le> 53"
  then have "53 \<le> bitlen n - 1" by simp
  then have "(2::int) ^ 53 \<le> 2 ^ (bitlen n - 1)"
    by (intro power_increasing) simp_all
  with bitlen_bounds [OF assms(1)] assms(2) show False by simp
qed

lemma round64_pos_int:
  assumes "0 < n" "n < 2 ^ 53"
  shows "round64 (of_int n) = Finite (of_int n)"
proof -
  define e where "e = max (ilog2 (of_int n) - 52) (- 1074)"
  define j where "j = nat (- e)"
  have "ilog2 (of_int n) \<le> 52"
    using ilog2_of_int [OF assms(1)] bitlen_le_53 [OF assms] by simp
  then have e: "e \<le> 0" by (simp add: e_def)
  then have p: "power_int (2::rat) e = 1 / 2 ^ j"
    by (simp add: power_int_def j_def field_simps)
  have scaled: "(of_int n :: rat) / power_int 2 e = of_int (n * 2 ^ j)"
    by (simp add: p)
  have r: "of_int (round_half_even ((of_int n :: rat) / power_int 2 e)) * power_int (2::rat) e
             = of_int n"
    unfolding scaled round_half_even_of_int by (simp add: p)
  have "(of_int n :: rat) < of_int (2 ^ 53)" using assms(2) by (simp only: of_int_less_iff)
  also have "\<dots> \<le> power_int (2::rat) 1024" by (simp add: power_int_def)
  finally have small: "\<not> power_int (2::rat) 1024 \<le> of_int n" by simp
  have nz: "(of_int n :: rat) \<noteq> 0" "\<bar>of_int n :: rat\<bar> = of_int n" "(0::rat) < of_int n"
    using assms(1) by simp_all
  show ?thesis
    unfolding round64_def Let_def nz(2) e_def [symmetric] r
    using nz small by simp
qed

lemma round64_minus: "round64 (- a) = (case round64 a of Finite r \<Rightarrow> Finite (- r)
    | PosInfinity \<Rightarrow> NegInfinity | NegInfinity \<Rightarrow> PosInfinity | NaN \<Rightarrow> NaN)"
  by (cases "a = 0"; cases "0 < a") (auto simp add: round64_def Let_def)

lemma round64_int:
  assumes "\<bar>n\<bar> < 2 ^ 53"
  shows "round64 (of_int n) = Finite (of_int n)"
proof (cases n "0::int" rule: linorder_cases)
  case less
  then have "round64 (of_int (- n)) = Finite (of_int (- n))"
    using assms by (intro round64_pos_int) simp_all
  then have "round64 (- of_int n) = Finite (- of_int n)" by simp
  then show ?thesis unfolding round64_minus [of "of_int n"]
    by (simp split: number.splits)
next
  case equal
  then show ?thesis by (simp add: round64_def)
next
  case greater
  then show ?thesis using assms by (intro round64_pos_int) simp_all
qed

lemma round64_numeral [simp]:
  "(numeral k :: int) < 2 ^ 53 \<Longrightarrow> round64 (numeral k) = Finite (numeral k)"
  "(numeral k :: int) < 2 ^ 53 \<Longrightarrow> round64 (- numeral k) = Finite (- numeral k)"
  "round64 0 = Finite 0" "round64 1 = Finite 1" "round64 (- 1) = Finite (- 1)"
  using round64_int [of "numeral k"] round64_int [of "- numeral k"] round64_int [of 0]
    round64_int [of 1] round64_int [of "- 1"]
  by simp_all

lemma canvas_size_int:
  assumes "0 \<le> n" "n \<le> 2147483647"
  shows "canvas_size d (num (of_int n)) = num (of_int n)"
proof -
  have "n mod 2 ^ 32 = n"
    using assms by (intro mod_pos_pos_trivial) simp_all
  then show ?thesis
    using assms by (simp add: canvas_size_def ToUint32_def)
qed

lemma canvas_size_numeral [simp]:
  "(numeral k :: int) \<le> 2147483647 \<Longrightarrow> canvas_size d (num (numeral k)) = num (numeral k)"
  using canvas_size_int [of "numeral k" d] by simp

section \<open>Frame facts: what each operation leaves alone\<close>

lemma emit_fields [simp]:
  "state (emit e s) = state s" "pending (emit e s) = pending s"
  "batching (emit e s) = batching s" "props_saveData (emit e s) = props_saveData s"
  "lastScrollPos (emit e s) = lastScrollPos s"
  "currentPulseTime (emit e s) = currentPulseTime s"
  "prevPulseTime (emit e s) = prevPulseTime s" "pulsesPerMs (emit e s) = pulsesPerMs s"
  "totalPulses (emit e s) = totalPulses s" "measure_pulses (emit e s) = measure_pulses s"
  "sheetMusic (emit e s) = sheetMusic s"
  "isProgrammaticScrolling (emit e s) = isProgrammaticScrolling s"
  "scrollTop (emit e s) = scrollTop s" "animations (emit e s) = animations s"
  "canvasShadeNotes_width (emit e s) = canvasShadeNotes_width s"
  "canvasShadeNotes_height (emit e s) = canvasShadeNotes_height s"
  "canvasMain_width (emit e s) = canvasMain_width s"
  "canvasMain_height (emit e s) = canvasMain_height s"
  "calls (emit e s) = calls s @ [e]"
  by (simp_all add: emit_def)

lemma scrollTo_fields [simp]:
  "state (scrollTo s x) = state s" "pending (scrollTo s x) = pending s"
  "batching (scrollTo s x) = batching s" "props_saveData (scrollTo s x) = props_saveData s"
  "currentPulseTime (scrollTo s x) = currentPulseTime s"
  "prevPulseTime (scrollTo s x) = prevPulseTime s" "pulsesPerMs (scrollTo s x) = pulsesPerMs s"
  "totalPulses (scrollTo s x) = totalPulses s" "measure_pulses (scrollTo s x) = measure_pulses s"
  "sheetMusic (scrollTo s x) = sheetMusic s"
  "isProgrammaticScrolling (scrollTo s x) = isProgrammaticScrolling s"
  "scrollTop (scrollTo s x) = scrollTop s"
  "canvasShadeNotes_width (scrollTo s x) = canvasShadeNotes_width s"
  "canvasShadeNotes_height (scrollTo s x) = canvasShadeNotes_height s"
  "canvasMain_width (scrollTo s x) = canvasMain_width s"
  "canvasMain_height (scrollTo s x) = canvasMain_height s"
  "calls (scrollTo s x) = calls s"
  by (simp_all add: scrollTo_def)

lemma shadeNotes_fields [simp]:
  "state (shadeNotes s c p) = state s" "pending (shadeNotes s c p) = pending s"
  "batching (shadeNotes s c p) = batching s"
  "props_saveData (shadeNotes s c p) = props_saveData s"
  "currentPulseTime (shadeNotes s c p) = currentPulseTime s"
  "prevPulseTime (shadeNotes s c p) = prevPulseTime s"
  "pulsesPerMs (shadeNotes s c p) = pulsesPerMs s"
  "totalPulses (shadeNotes s c p) = totalPulses s"
  "measure_pulses (shadeNotes s c p) = measure_pulses s"
  "sheetMusic (shadeNotes s c p) = sheetMusic s"
  "isProgrammaticScrolling (shadeNotes s c p) = isProgrammaticScrolling s"
  "scrollTop (shadeNotes s c p) = scrollTop s"
  "canvasShadeNotes_width (shadeNotes s c p) = canvasShadeNotes_width s"
  "canvasShadeNotes_height (shadeNotes s c p) = canvasShadeNotes_height s"
  "canvasMain_width (shadeNotes s c p) = canvasMain_width s"
  "canvasMain_height (shadeNotes s c p) = canvasMain_height s"
  by (simp_all add: shadeNotes_def getScrollOffset_def Let_def split: option.splits)

lemma shadeNotes_calls:
  "sheetMusic s = Some sm \<Longrightarrow>
   calls (shadeNotes s c p) =
     calls s @ [Translate (js_neg (scrollTop s)), ShadeNotesCall c p, Translate (scrollTop s)]"
  by (simp add: shadeNotes_def getScrollOffset_def Let_def)

lemma shadeNotes_unloaded: "sheetMusic s = None \<Longrightarrow> shadeNotes s c p = s"
  by (simp add: shadeNotes_def)

lemma setState_fields [simp]:
  "batching (setState s patch) = batching s"
  "props_saveData (setState s patch) = props_saveData s"
  "lastScrollPos (setState s patch) = lastScrollPos s"
  "currentPulseTime (setState s patch) = currentPulseTime s"
  "prevPulseTime (setState s patch) = prevPulseTime s"
  "pulsesPerMs (setState s patch) = pulsesPerMs s"
  "totalPulses (setState s patch) = totalPulses s"
  "measure_pulses (setState s patch) = measure_pulses s"
  "sheetMusic (setState s patch) = sheetMusic s"
  "isProgrammaticScrolling (setState s patch) = isProgrammaticScrolling s"
  "scrollTop (setState s patch) = scrollTop s"
  "animations (setState s patch) = animations s"
  "canvasShadeNotes_width (setState s patch) = canvasShadeNotes_width s"
  "canvasShadeNotes_height (setState s patch) = canvasShadeNotes_height s"
  "canvasMain_width (setState s patch) = canvasMain_width s"
  "canvasMain_height (setState s patch) = canvasMain_height s"
  "calls (setState s patch) = calls s"
  by (simp_all add: setState_def)

lemma setState_state:
  "state (setState s patch) = (if batching s then state s else state s ++ patch)"
  "pending (setState s patch) = (if batching s then pending s @ [patch] else pending s)"
  by (simp_all add: setState_def)

lemma clearShadeNotes_fields [simp]:
  "state (clearShadeNotes s) = state s" "pending (clearShadeNotes s) = pending s"
  "batching (clearShadeNotes s) = batching s"
  "props_saveData (clearShadeNotes s) = props_saveData s"
  "lastScrollPos (clearShadeNotes s) = lastScrollPos s"
  "currentPulseTime (clearShadeNotes s) = currentPulseTime s"
  "prevPulseTime (clearShadeNotes s) = prevPulseTime s"
  "pulsesPerMs (clearShadeNotes s) = pulsesPerMs s"
  "totalPulses (clearShadeNotes s) = totalPulses s"
  "measure_pulses (clearShadeNotes s) = measure_pulses s"
  "sheetMusic (clearShadeNotes s) = sheetMusic s"
  "isProgrammaticScrolling (clearShadeNotes s) = isProgrammaticScrolling s"
  "scrollTop (clearShadeNotes s) = scrollTop s"
  "animations (clearShadeNotes s) = animations s"
  "canvasShadeNotes_width (clearShadeNotes s) = canvasShadeNotes_width s"
  "canvasShadeNotes_height (clearShadeNotes s) = canvasShadeNotes_height s"
  "canvasMain_width (clearShadeNotes s) = canvasMain_width s"
  "canvasMain_height (clearShadeNotes s) = canvasMain_height s"
  "calls (clearShadeNotes s) =
     calls s @ [ClearRect (canvasShadeNotes_width s) (canvasShadeNotes_height s)]"
  by (simp_all add: clearShadeNotes_def)

lemma paintSheetMusic_fields [simp]:
  "state (paintSheetMusic s) = state s" "pending (paintSheetMusic s) = pending s"
  "batching (paintSheetMusic s) = batching s"
  "props_saveData (paintSheetMusic s) = props_saveData s"
  "currentPulseTime (paintSheetMusic s) = currentPulseTime s"
  "prevPulseTime (paintSheetMusic s) = prevPulseTime s"
  "pulsesPerMs (paintSheetMusic s) = pulsesPerMs s"
  "totalPulses (paintSheetMusic s) = totalPulses s"
  "measure_pulses (paintSheetMusic s) = measure_pulses s"
  "sheetMusic (paintSheetMusic s) = sheetMusic s"
  "isProgrammaticScrolling (paintSheetMusic s) = isProgrammaticScrolling s"
  "scrollTop (paintSheetMusic s) = scrollTop s"
  "canvasShadeNotes_width (paintSheetMusic s) = canvasShadeNotes_width s"
  "canvasShadeNotes_height (paintSheetMusic s) = canvasShadeNotes_height s"
  "canvasMain_width (paintSheetMusic s) = canvasMain_width s"
  by (simp_all add: paintSheetMusic_def Let_def split: option.splits)

lemma paintSheetMusic_calls:
  "sheetMusic s = Some sm \<Longrightarrow>
   calls (paintSheetMusic s) =
     calls s @ [FillRect (canvasMain_width s) (canvas_size 150 (Height sm)), OnPaint (Width sm) (Height sm),
                ClearRect (canvasShadeNotes_width s) (canvasShadeNotes_height s),
                Translate (js_neg (scrollTop s)),
                ShadeNotesCall (currentPulseTime s)
                  (js_sub (currentPulseTime s) (measure_pulses s)),
                Translate (scrollTop s)]"
  by (simp add: paintSheetMusic_def Let_def shadeNotes_calls)

lemma updateSelection_fields [simp]:
  "state (updateSelection s sel) = state s" "pending (updateSelection s sel) = pending s"
  "batching (updateSelection s sel) = batching s"
  "props_saveData (updateSelection s sel) = props_saveData s"
  "currentPulseTime (updateSelection s sel) = currentPulseTime s"
  "prevPulseTime (updateSelection s sel) = prevPulseTime s"
  "pulsesPerMs (updateSelection s sel) = pulsesPerMs s"
  "totalPulses (updateSelection s sel) = totalPulses s"
  "measure_pulses (updateSelection s sel) = measure_pulses s"
  "isProgrammaticScrolling (updateSelection s sel) = isProgrammaticScrolling s"
  "scrollTop (updateSelection s sel) = scrollTop s"
  "canvasShadeNotes_width (updateSelection s sel) = canvasShadeNotes_width s"
  "canvasShadeNotes_height (updateSelection s sel) = canvasShadeNotes_height s"
  "canvasMain_width (updateSelection s sel) = canvasMain_width s"
  by (simp_all add: updateSelection_def Let_def split: option.splits)

lemma updateSelection_sheetMusic:
  "sheetMusic (updateSelection s sel) =
     map_option (\<lambda>sm. sm\<lparr>SelectionStartPulse := prop_get sel ''selectionStartPulse'',
                             SelectionEndPulse := prop_get sel ''selectionEndPulse''\<rparr>)
       (sheetMusic s)"
  by (simp add: updateSelection_def Let_def split: option.splits)

lemma updateSelection_calls:
  "sheetMusic s = Some sm \<Longrightarrow>
   calls (updateSelection s sel) =
     calls s @ [SetCurrentMs (prop_get (state s) ''selectionStartMs''),
                FillRect (canvasMain_width s) (canvas_size 150 (Height sm)), OnPaint (Width sm) (Height sm),
                ClearRect (canvasShadeNotes_width s) (canvasShadeNotes_height s),
                Translate (js_neg (scrollTop s)),
                ShadeNotesCall (currentPulseTime s)
                  (js_sub (currentPulseTime s) (measure_pulses s)),
                Translate (scrollTop s)]"
  by (simp add: updateSelection_def Let_def paintSheetMusic_calls)

lemma initSheetMusic_calls:
  "sheetMusic s = Some sm \<Longrightarrow>
   calls (initSheetMusic s innerHeight rectTop) =
     calls s @ [SetCurrentMs (prop_get (state s) ''selectionStartMs''),
                FillRect (canvas_size 300 (Width sm)) (canvas_size 150 (Height sm)), OnPaint (Width sm) (Height sm),
                ClearRect (canvas_size 300 (Width sm))
                  (canvas_size 150 (js_sub innerHeight rectTop)),
                Translate (js_neg (scrollTop s)),
                ShadeNotesCall (currentPulseTime s)
                  (js_sub (currentPulseTime s) (measure_pulses s)),
                Translate (scrollTop s)]"
  by (simp add: initSheetMusic_def Let_def updateSelection_calls)

lemma loadMidiFile_fields [simp]:
  "state (loadMidiFile s f h r) = state s" "pending (loadMidiFile s f h r) = pending s"
  "batching (loadMidiFile s f h r) = batching s"
  "props_saveData (loadMidiFile s f h r) = props_saveData s"
  "currentPulseTime (loadMidiFile s f h r) = currentPulseTime s"
  "prevPulseTime (loadMidiFile s f h r) = prevPulseTime s"
  "pulsesPerMs (loadMidiFile s f h r) = getPulsesPerMsec f"
  "totalPulses (loadMidiFile s f h r) = getTotalPulses f"
  "measure_pulses (loadMidiFile s f h r) = getMeasure f"
  "isProgrammaticScrolling (loadMidiFile s f h r) = isProgrammaticScrolling s"
  "scrollTop (loadMidiFile s f h r) = scrollTop s"
  "canvasShadeNotes_width (loadMidiFile s f h r) = canvas_size 300 (Width (newSheetMusic f))"
  "canvasShadeNotes_height (loadMidiFile s f h r) = canvas_size 150 (js_sub h r)"
  "canvasMain_width (loadMidiFile s f h r) = canvas_size 300 (Width (newSheetMusic f))"
  "sheetMusic (loadMidiFile s f h r) =
     Some ((newSheetMusic f)\<lparr>
       SelectionStartPulse := prop_get (state s) ''selectionStartPulse'',
       SelectionEndPulse := prop_get (state s) ''selectionEndPulse''\<rparr>)"
  by (simp_all add: loadMidiFile_def initSheetMusic_def Let_def updateSelection_sheetMusic)

lemma saveData_fields [simp]:
  "state (saveData s m) = state s" "pending (saveData s m) = pending s"
  "batching (saveData s m) = batching s" "props_saveData (saveData s m) = props_saveData s"
  "lastScrollPos (saveData s m) = lastScrollPos s"
  "currentPulseTime (saveData s m) = currentPulseTime s"
  "prevPulseTime (saveData s m) = prevPulseTime s" "pulsesPerMs (saveData s m) = pulsesPerMs s"
  "totalPulses (saveData s m) = totalPulses s" "measure_pulses (saveData s m) = measure_pulses s"
  "sheetMusic (saveData s m) = sheetMusic s"
  "isProgrammaticScrolling (saveData s m) = isProgrammaticScrolling s"
  "scrollTop (saveData s m) = scrollTop s" "animations (saveData s m) = animations s"
  "canvasShadeNotes_width (saveData s m) = canvasShadeNotes_width s"
  "canvasShadeNotes_height (saveData s m) = canvasShadeNotes_height s"
  "canvasMain_width (saveData s m) = canvasMain_width s"
  by (simp_all add: saveData_def)

lemma animate_fields [simp]:
  "state (animate s t) = state s" "pending (animate s t) = pending s"
  "batching (animate s t) = batching s" "props_saveData (animate s t) = props_saveData s"
  "pulsesPerMs (animate s t) = pulsesPerMs s" "totalPulses (animate s t) = totalPulses s"
  "measure_pulses (animate s t) = measure_pulses s" "sheetMusic (animate s t) = sheetMusic s"
  "isProgrammaticScrolling (animate s t) = isProgrammaticScrolling s"
  "scrollTop (animate s t) = scrollTop s"
  "canvasShadeNotes_width (animate s t) = canvasShadeNotes_width s"
  "canvasShadeNotes_height (animate s t) = canvasShadeNotes_height s"
  "currentPulseTime (animate s t) = js_mul t (pulsesPerMs s)"
  "prevPulseTime (animate s t) = js_mul t (pulsesPerMs s)"
  by (simp_all add: animate_def Let_def)

lemma loadData_fields [simp]:
  "batching (loadData s d) = batching s" "props_saveData (loadData s d) = props_saveData s"
  "pulsesPerMs (loadData s d) = pulsesPerMs s" "totalPulses (loadData s d) = totalPulses s"
  "measure_pulses (loadData s d) = measure_pulses s"
  "currentPulseTime (loadData s d) = currentPulseTime s"
  "prevPulseTime (loadData s d) = prevPulseTime s"
  "scrollTop (loadData s d) = scrollTop s"
  "isProgrammaticScrolling (loadData s d) = isProgrammaticScrolling s"
  "canvasShadeNotes_width (loadData s d) = canvasShadeNotes_width s"
  "canvasShadeNotes_height (loadData s d) = canvasShadeNotes_height s"
  "canvasMain_width (loadData s d) = canvasMain_width s"
  "state (loadData s d) = (if batching s then state s else state s ++ d)"
  "pending (loadData s d) = (if batching s then pending s @ [d] else pending s)"
  "sheetMusic (loadData s d) =
     map_option (\<lambda>sm. sm\<lparr>SelectionStartPulse := prop_get d ''selectionStartPulse'',
                             SelectionEndPulse := prop_get d ''selectionEndPulse''\<rparr>)
       (sheetMusic s)"
  by (simp_all add: loadData_def setState_state updateSelection_sheetMusic)

lemma setSelection_fields [simp]:
  "batching (setSelection name s) = batching s"
  "props_saveData (setSelection name s) = props_saveData s"
  "state (setSelection name s) =
     (if batching s then state s else state s ++ currentSelection name s)"
  "pending (setSelection name s) =
     (if batching s then pending s @ [currentSelection name s] else pending s)"
  by (simp_all add: setSelection_def Let_def setState_state)

lemma setSelection_calls:
  "sheetMusic s = Some sm \<Longrightarrow>
   take (length (calls s) + 7) (calls (setSelection name s)) =
     calls s @ [SetCurrentMs (prop_get (state (setState s (currentSelection name s)))
                   ''selectionStartMs''),
                FillRect (canvasMain_width s) (canvas_size 150 (Height sm)), OnPaint (Width sm) (Height sm),
                ClearRect (canvasShadeNotes_width s) (canvasShadeNotes_height s),
                Translate (js_neg (scrollTop s)),
                ShadeNotesCall (currentPulseTime s)
                  (js_sub (currentPulseTime s) (measure_pulses s)),
                Translate (scrollTop s)]"
  by (simp add: setSelection_def Let_def saveData_def updateSelection_calls)

lemma easing_data_fields [simp]:
  "state (easing_data s run d) = state s" "pending (easing_data s run d) = pending s"
  "batching (easing_data s run d) = batching s"
  "isProgrammaticScrolling (easing_data s run d) = Boolean True"
  "scrollTop (easing_data s run d) = lerp (fst run) (snd run) d"
  by (simp_all add: easing_data_def)

lemma prop_get_update:
  "prop_get (m(k \<mapsto> v)) k' = (if k' = k then v else prop_get m k')"
  "prop_get Map.empty k' = Undefined"
  by (simp_all add: prop_get_def)

lemma flush_last_patch:
  "pending s = ps @ [patch] \<Longrightarrow> patch k = Some v \<Longrightarrow> prop_get (state (flush s)) k = v"
  by (simp add: flush_def prop_get_def)

lemma currentSelection_clear:
  "currentSelection None s =
     [''selectionStartMs'' \<mapsto> num (- 1), ''selectionEndMs'' \<mapsto> num (- 1),
      ''selectionStartPulse'' \<mapsto> num 0, ''selectionEndPulse'' \<mapsto> num 0]"
  by (simp add: currentSelection_def)

lemma react_event_state:
  "pending s = [] \<Longrightarrow> pending (handler (s\<lparr>batching := True\<rparr>)) = [patch] \<Longrightarrow>
   state (handler (s\<lparr>batching := True\<rparr>)) = state s \<Longrightarrow>
   state (react_event handler s) = state s ++ patch"
  by (simp add: react_event_def flush_def)

section \<open>Writes to the persistence callback\<close>

lemma persisted_shadeNotes [simp]: "persisted (shadeNotes s c p) = persisted s"
  by (simp add: shadeNotes_def Let_def split: option.splits)

lemma persisted_paintSheetMusic [simp]: "persisted (paintSheetMusic s) = persisted s"
  by (simp add: paintSheetMusic_def Let_def split: option.splits)

lemma persisted_updateSelection [simp]: "persisted (updateSelection s sel) = persisted s"
  by (simp add: updateSelection_def Let_def split: option.splits)

lemma persisted_loadData [simp]: "persisted (loadData s d) = persisted s"
  by (simp add: loadData_def)

lemma persisted_loadMidiFile [simp]: "persisted (loadMidiFile s f h r) = persisted s"
  by (simp add: loadMidiFile_def initSheetMusic_def Let_def)

lemma persisted_flush [simp]: "persisted (flush s) = persisted s"
  by (simp add: flush_def)

lemma persisted_saveData:
  "persisted (saveData s m) =
     persisted s @ (if props_saveData s then
       [SaveData ([''selectionStartMs'' \<mapsto> prop_get (state s) ''selectionStartMs'',
               ''selectionEndMs'' \<mapsto> prop_get (state s) ''selectionEndMs'',
               ''selectionStartPulse'' \<mapsto> prop_get (state s) ''selectionStartPulse'',
               ''selectionEndPulse'' \<mapsto> prop_get (state s) ''selectionEndPulse'',
               ''autoScroll'' \<mapsto> prop_get (state s) ''autoScroll''] ++ m)] else [])"
  by (simp add: saveData_def)

lemma setSelection_persisted:
  "persisted (setSelection name s) =
     persisted s @ (if props_saveData s then
       [SaveData ([''selectionStartMs'' \<mapsto> prop_get (state (setState s (currentSelection name s))) ''selectionStartMs'',
               ''selectionEndMs'' \<mapsto> prop_get (state (setState s (currentSelection name s))) ''selectionEndMs'',
               ''selectionStartPulse'' \<mapsto> prop_get (state (setState s (currentSelection name s))) ''selectionStartPulse'',
               ''selectionEndPulse'' \<mapsto> prop_get (state (setState s (currentSelection name s))) ''selectionEndPulse'',
               ''autoScroll'' \<mapsto> prop_get (state (setState s (currentSelection name s))) ''autoScroll''] ++ currentSelection name s),
        SaveData (currentSelection name s)] else [])"
  by (simp add: setSelection_def Let_def persisted_saveData)

lemma persisted_react_event [simp]:
  "persisted (react_event handler s) = persisted (handler (s\<lparr>batching := True\<rparr>))"
  by (simp add: react_event_def flush_def)

lemma persisted_constructor [simp]: "persisted (constructor b) = []"
  by (simp add: constructor_def)

section \<open>Facts of the concrete session\<close>

lemma constructor_state [simp]:
  "prop_get (state (constructor b)) ''selectionStartMs'' = num (- 1)"
  "prop_get (state (constructor b)) ''selectionEndMs'' = num (- 1)"
  "prop_get (state (constructor b)) ''selectionStartPulse'' = num 0"
  "prop_get (state (constructor b)) ''selectionEndPulse'' = num 0"
  "prop_get (state (constructor b)) ''autoScroll'' = Undefined"
  by (simp_all add: constructor_def prop_get_def)

lemma demo_loaded_fields [simp]:
  "pulsesPerMs demo_loaded = num 2" "measure_pulses demo_loaded = num 50"
  "totalPulses demo_loaded = num 10000" "scrollTop demo_loaded = num 0"
  "sheetMusic demo_loaded = Some demo_sheet" "batching demo_loaded = False"
  "props_saveData demo_loaded = True" "pending demo_loaded = []"
  "currentPulseTime demo_loaded = Undefined" "prevPulseTime demo_loaded = Undefined"
  "isProgrammaticScrolling demo_loaded = Undefined"
  "canvasShadeNotes_width demo_loaded = num 800"
  "canvasShadeNotes_height demo_loaded = num 600"
  "canvasMain_width demo_loaded = num 800"
  "state demo_loaded = state (constructor True)"
  by (simp_all add: demo_loaded_def demo_file_def demo_sheet_def constructor_def
        prop_get_def js_sub_def)

lemma demo_loaded_more [simp]:
  "lastScrollPos demo_loaded = num (- 1)" "animations demo_loaded = []"
  by (simp_all add: demo_loaded_def loadMidiFile_def initSheetMusic_def updateSelection_def
        paintSheetMusic_def shadeNotes_def scrollTo_def Let_def constructor_def prop_get_def
        getScrollOffset_def clearShadeNotes_def emit_def)

lemma demo_auto_fields [simp]:
  "prop_get (state demo_auto) ''autoScroll'' = Boolean True"
  "lastScrollPos demo_auto = num (- 1)" "scrollTop demo_auto = num 0"
  "animations demo_auto = []" "sheetMusic demo_auto = Some demo_sheet"
  "isProgrammaticScrolling demo_auto = Undefined" "batching demo_auto = False"
  "pending demo_auto = []" "pulsesPerMs demo_auto = num 2"
  "measure_pulses demo_auto = num 50"
  by (simp_all add: demo_auto_def handleAutoScrollClick_def Let_def setState_state
        prop_get_def)

lemma demo_ticked_fields [simp]:
  "currentPulseTime demo_ticked = num 300" "prevPulseTime demo_ticked = num 300"
  "measure_pulses demo_ticked = num 50" "sheetMusic demo_ticked = Some demo_sheet"
  "scrollTop demo_ticked = num 0" "canvasShadeNotes_width demo_ticked = num 800"
  "canvasShadeNotes_height demo_ticked = num 600"
  by (simp_all add: demo_ticked_def js_mul_def)

lemma demo_selected_fields [simp]:
  "prop_get (state demo_selected) ''selectionStartMs'' = num 1000"
  "prop_get (state demo_selected) ''selectionEndMs'' = num 2000"
  "prop_get (state demo_selected) ''selectionStartPulse'' = num 2000"
  "prop_get (state demo_selected) ''selectionEndPulse'' = num 4000"
  "prop_get (state demo_selected) ''autoScroll'' = Undefined"
  "pulsesPerMs demo_selected = num 2" "measure_pulses demo_selected = num 50"
  "batching demo_selected = False" "pending demo_selected = []"
  "props_saveData demo_selected = True" "scrollTop demo_selected = num 0"
  "currentPulseTime demo_selected = Undefined"
  "canvasShadeNotes_width demo_selected = num 800"
  "canvasShadeNotes_height demo_selected = num 600"
  "canvasMain_width demo_selected = num 800"
  "sheetMusic demo_selected =
     Some (demo_sheet\<lparr>SelectionStartPulse := num 2000, SelectionEndPulse := num 4000\<rparr>)"
  by (simp_all add: demo_selected_def prop_get_def constructor_def)

lemma persisted_demo_selected [simp]: "persisted demo_selected = []"
  by (simp add: demo_selected_def demo_loaded_def)

lemma demo_unloaded_fields [simp]:
  "sheetMusic demo_unloaded = None"
  "prop_get (state demo_unloaded) ''autoScroll'' = Boolean True"
  "isProgrammaticScrolling demo_unloaded = Undefined" "batching demo_unloaded = False"
  by (simp_all add: demo_unloaded_def handleAutoScrollClick_def Let_def setState_state
        prop_get_def constructor_def)

lemma demo_unloaded_more [simp]:
  "canvasShadeNotes_width demo_unloaded = num 1" "canvasShadeNotes_height demo_unloaded = num 1"
  "pulsesPerMs demo_unloaded = Undefined" "props_saveData demo_unloaded = True"
  by (simp_all add: demo_unloaded_def handleAutoScrollClick_def Let_def constructor_def)

section \<open>The playback tick\<close>

text \<open>
  C1. A playback tick \<open>animate playerTimeMillis\<close> sets the current pulse to
  \<open>playerTimeMillis * pulsesPerMs\<close>, calls shadeNotes with the pair (current pulse,
  previous pulse), and then stores the current pulse as the previous one. The stored
  value is a number, copied by value. With a score loaded the renderer receives
  \<open>ShadeNotes(current, previous, true)\<close> between the two translations of the overlay,
  and the next tick passes the first tick's current pulse as its previous pulse.
\<close>

theorem animate_tick:
  "currentPulseTime (animate s t) = js_mul t (pulsesPerMs s)
   \<and> prevPulseTime (animate s t) = js_mul t (pulsesPerMs s)
   \<and> animate s t =
       (shadeNotes (s\<lparr>currentPulseTime := js_mul t (pulsesPerMs s)\<rparr>)
          (js_mul t (pulsesPerMs s)) (prevPulseTime s))
       \<lparr>prevPulseTime := js_mul t (pulsesPerMs s)\<rparr>
   \<and> (sheetMusic s \<noteq> None \<longrightarrow>
        calls (animate s t) =
          calls s @ [Translate (js_neg (scrollTop s)),
                     ShadeNotesCall (js_mul t (pulsesPerMs s)) (prevPulseTime s),
                     Translate (scrollTop s)])
   \<and> (sheetMusic s \<noteq> None \<longrightarrow>
        calls (animate (animate s t) t') =
          calls (animate s t) @ [Translate (js_neg (scrollTop s)),
                     ShadeNotesCall (js_mul t' (pulsesPerMs s)) (js_mul t (pulsesPerMs s)),
                     Translate (scrollTop s)])"
  by (auto simp add: animate_def Let_def shadeNotes_calls)

text \<open>With two pulses per millisecond, a tick at 100 ms gives pulse 200, and the tick
  at 150 ms that follows shades with current pulse 300 and previous pulse 200.\<close>

theorem animate_tick_witness:
  "sheetMusic demo_loaded \<noteq> None
   \<and> currentPulseTime (animate demo_loaded (num 100)) = num 200
   \<and> calls (animate (animate demo_loaded (num 100)) (num 150)) =
       calls (animate demo_loaded (num 100))
         @ [Translate (num 0), ShadeNotesCall (num 300) (num 200), Translate (num 0)]"
proof -
  note tick = animate_tick [of demo_loaded "num 100" "num 150"]
  have "currentPulseTime (animate demo_loaded (num 100)) = num 200"
    using tick [THEN conjunct1] by (simp add: js_mul_def)
  moreover have "calls (animate (animate demo_loaded (num 100)) (num 150)) =
       calls (animate demo_loaded (num 100))
         @ [Translate (num 0), ShadeNotesCall (num 300) (num 200), Translate (num 0)]"
    using tick [THEN conjunct2, THEN conjunct2, THEN conjunct2, THEN conjunct2]
    by (simp add: js_mul_def js_neg_def)
  ultimately show ?thesis by simp
qed

section \<open>Auto-scroll\<close>

lemma scrollTo_disabled:
  "\<not> truthy (prop_get (state s) ''autoScroll'') \<Longrightarrow> scrollTo s x = s"
  by (simp add: scrollTo_def)

lemma shadeNotes_disabled:
  "\<not> truthy (prop_get (state s) ''autoScroll'') \<Longrightarrow>
   shadeNotes s c p = s\<lparr>calls := calls (shadeNotes s c p)\<rparr>"
  by (simp add: shadeNotes_def getScrollOffset_def Let_def scrollTo_disabled emit_def
        split: option.splits)

lemma shadeNotes_sequence_disabled:
  "\<not> truthy (prop_get (state s) ''autoScroll'') \<Longrightarrow>
   foldl (\<lambda>s' (c, p). shadeNotes s' c p) s cps =
     s\<lparr>calls := calls (foldl (\<lambda>s' (c, p). shadeNotes s' c p) s cps)\<rparr>"
proof (induction cps arbitrary: s)
  case Nil
  then show ?case by simp
next
  case (Cons cp cps)
  obtain c p where cp: "cp = (c, p)" by (cases cp)
  let ?s1 = "shadeNotes s c p"
  have off: "\<not> truthy (prop_get (state ?s1) ''autoScroll'')"
    using Cons.prems by simp
  have s1: "?s1 = s\<lparr>calls := calls ?s1\<rparr>"
    using Cons.prems by (rule shadeNotes_disabled)
  have "foldl (\<lambda>s' (c, p). shadeNotes s' c p) ?s1 cps =
          ?s1\<lparr>calls := calls (foldl (\<lambda>s' (c, p). shadeNotes s' c p) ?s1 cps)\<rparr>"
    using off by (rule Cons.IH)
  also have "\<dots> = s\<lparr>calls := calls (foldl (\<lambda>s' (c, p). shadeNotes s' c p) ?s1 cps)\<rparr>"
    by (subst s1) simp
  finally show ?case by (simp add: cp)
qed

text \<open>
  C2. While \<open>this.state.autoScroll\<close> is falsy, every scrollTo request is a no-op, and no
  sequence of shadeNotes calls changes the scroll offset, starts an eased run or moves
  the recorded target: such a sequence only adds drawing calls to the trace.
\<close>

theorem shadeNotes_never_scrolls_when_disabled:
  assumes "\<not> truthy (prop_get (state s) ''autoScroll'')"
  shows "scrollTo s x = s
    \<and> scrollTop (foldl (\<lambda>s' (c, p). shadeNotes s' c p) s cps) = scrollTop s
    \<and> animations (foldl (\<lambda>s' (c, p). shadeNotes s' c p) s cps) = animations s
    \<and> lastScrollPos (foldl (\<lambda>s' (c, p). shadeNotes s' c p) s cps) = lastScrollPos s
    \<and> foldl (\<lambda>s' (c, p). shadeNotes s' c p) s cps =
           s\<lparr>calls := calls (foldl (\<lambda>s' (c, p). shadeNotes s' c p) s cps)\<rparr>"
proof -
  note seq = shadeNotes_sequence_disabled [OF assms, of cps]
  have "scrollTo s x = s" using assms by (rule scrollTo_disabled)
  moreover have "scrollTop (foldl (\<lambda>s' (c, p). shadeNotes s' c p) s cps) = scrollTop s"
    by (subst seq) simp
  moreover have "animations (foldl (\<lambda>s' (c, p). shadeNotes s' c p) s cps) = animations s"
    by (subst seq) simp
  moreover have "lastScrollPos (foldl (\<lambda>s' (c, p). shadeNotes s' c p) s cps) = lastScrollPos s"
    by (subst seq) simp
  ultimately show ?thesis using seq by blast
qed

text \<open>The loaded session has auto-scroll unset; two shading calls leave the offset at 0
  and start no run.\<close>

theorem shadeNotes_never_scrolls_when_disabled_witness:
  "\<not> truthy (prop_get (state demo_loaded) ''autoScroll'')
   \<and> scrollTo demo_loaded (num 40) = demo_loaded
   \<and> scrollTop (foldl (\<lambda>s' (c, p). shadeNotes s' c p) demo_loaded
         [(num 200, num 100), (num 300, num 200)]) = num 0
   \<and> animations (foldl (\<lambda>s' (c, p). shadeNotes s' c p) demo_loaded
         [(num 200, num 100), (num 300, num 200)]) = animations demo_loaded"
proof -
  have off: "\<not> truthy (prop_get (state demo_loaded) ''autoScroll'')" by simp
  show ?thesis
    using off shadeNotes_never_scrolls_when_disabled
      [OF off, of "num 40" "[(num 200, num 100), (num 300, num 200)]"]
    by simp
qed






section \<open>The scroll handler\<close>

text \<open>
  C4. The scroll handler always leaves \<open>isProgrammaticScrolling\<close> false. When auto-scroll
  is on and the event is not flagged as programmatic, auto-scroll is false once the
  handler's setState has been applied (at once, or at the end of the batch). When
  auto-scroll is on and the event is flagged, the handler issues no setState and
  auto-scroll stays on.
\<close>

theorem scroll_consumes_flag:
  "isProgrammaticScrolling (scroll s) = Boolean False
   \<and> (truthy (prop_get (state s) ''autoScroll'') \<and> \<not> truthy (isProgrammaticScrolling s)
        \<longrightarrow> prop_get (state (if batching s then flush (scroll s) else scroll s))
              ''autoScroll'' = Boolean False)
   \<and> (truthy (prop_get (state s) ''autoScroll'') \<and> truthy (isProgrammaticScrolling s)
        \<longrightarrow> state (scroll s) = state s \<and> pending (scroll s) = pending s
          \<and> truthy (prop_get (state (scroll s)) ''autoScroll''))"
proof -
  have flag: "isProgrammaticScrolling (scroll s) = Boolean False"
    by (simp add: scroll_def Let_def)
  have user: "prop_get (state (if batching s then flush (scroll s) else scroll s))
              ''autoScroll'' = Boolean False"
    if "truthy (prop_get (state s) ''autoScroll'')" "\<not> truthy (isProgrammaticScrolling s)"
  proof (cases "batching s")
    case True
    then have "pending (scroll s) = pending s @ [[''autoScroll'' \<mapsto> Boolean False]]"
      using that by (simp add: scroll_def Let_def setState_state)
    then have "prop_get (state (flush (scroll s))) ''autoScroll'' = Boolean False"
      by (rule flush_last_patch) simp
    with True show ?thesis by simp
  next
    case False
    then have "state (scroll s) = state s ++ [''autoScroll'' \<mapsto> Boolean False]"
      using that by (simp add: scroll_def Let_def setState_state)
    with False show ?thesis by (simp add: prop_get_def)
  qed
  have prog: "state (scroll s) = state s \<and> pending (scroll s) = pending s
          \<and> truthy (prop_get (state (scroll s)) ''autoScroll'')"
    if "truthy (prop_get (state s) ''autoScroll'')" "truthy (isProgrammaticScrolling s)"
    using that by (simp add: scroll_def Let_def)
  show ?thesis using flag user prog by blast
qed

text \<open>A user scroll in the session with auto-scroll on turns it off; a scroll that
  follows a tick of an eased run leaves it on; both reset the flag.\<close>

theorem scroll_consumes_flag_witness:
  "truthy (prop_get (state demo_auto) ''autoScroll'')
   \<and> \<not> truthy (isProgrammaticScrolling demo_auto)
   \<and> prop_get (state (scroll demo_auto)) ''autoScroll'' = Boolean False
   \<and> isProgrammaticScrolling (scroll demo_auto) = Boolean False
   \<and> truthy (isProgrammaticScrolling (easing_data demo_auto (num 0, num 40) (num (1 / 2))))
   \<and> prop_get (state (scroll (easing_data demo_auto (num 0, num 40) (num (1 / 2)))))
         ''autoScroll'' = Boolean True
   \<and> isProgrammaticScrolling (scroll (easing_data demo_auto (num 0, num 40) (num (1 / 2))))
       = Boolean False"
proof -
  have on: "truthy (prop_get (state demo_auto) ''autoScroll'')"
    and user: "\<not> truthy (isProgrammaticScrolling demo_auto)"
    and prog: "truthy (isProgrammaticScrolling
                 (easing_data demo_auto (num 0, num 40) (num (1 / 2))))"
    by simp_all
  show ?thesis
    using on user prog scroll_consumes_flag [of demo_auto]
      scroll_consumes_flag [of "easing_data demo_auto (num 0, num 40) (num (1 / 2))"]
    by simp
qed

text \<open>
  C5, as the code has it. The scroll handler leaves the current and the previous pulse
  as they were, and re-shades with the pair (current pulse, current pulse minus one
  measure), not with the stored previous pulse.
\<close>

theorem scroll_reshades_one_measure_back:
  "currentPulseTime (scroll s) = currentPulseTime s
   \<and> prevPulseTime (scroll s) = prevPulseTime s
   \<and> (sheetMusic s \<noteq> None \<longrightarrow>
        calls (scroll s) =
          calls s @ [ClearRect (canvasShadeNotes_width s) (canvasShadeNotes_height s),
                     Translate (js_neg (scrollTop s)),
                     ShadeNotesCall (currentPulseTime s)
                       (js_sub (currentPulseTime s) (measure_pulses s)),
                     Translate (scrollTop s)])"
  by (auto simp add: scroll_def Let_def shadeNotes_calls)

text \<open>After ticks at 100 ms and 150 ms (measure 50) the handler shades (300, 250).\<close>

theorem scroll_reshades_one_measure_back_witness:
  "sheetMusic demo_ticked \<noteq> None
   \<and> prevPulseTime (scroll demo_ticked) = num 300
   \<and> calls (scroll demo_ticked) =
       calls demo_ticked @ [ClearRect (num 800) (num 600), Translate (num 0),
                            ShadeNotesCall (num 300) (num 250), Translate (num 0)]"
  using scroll_reshades_one_measure_back [of demo_ticked]
  by (simp add: js_sub_def js_neg_def)

text \<open>C5 as stated fails: after the ticks at 100 ms and 150 ms the stored previous pulse
  is 300 and the last tick shaded (300, 200), while the scroll handler shades
  (300, 250).\<close>

theorem scroll_previous_counterexample:
  "prevPulseTime demo_ticked = num 300
   \<and> calls demo_ticked =
       calls (animate demo_loaded (num 100))
         @ [Translate (num 0), ShadeNotesCall (num 300) (num 200), Translate (num 0)]
   \<and> drop (length (calls demo_ticked)) (calls (scroll demo_ticked)) =
       [ClearRect (num 800) (num 600), Translate (num 0),
        ShadeNotesCall (num 300) (num 250), Translate (num 0)]
   \<and> ShadeNotesCall (currentPulseTime demo_ticked) (prevPulseTime demo_ticked)
       \<notin> set (drop (length (calls demo_ticked)) (calls (scroll demo_ticked)))"
proof -
  have "calls (scroll demo_ticked) =
       calls demo_ticked @ [ClearRect (num 800) (num 600), Translate (num 0),
                            ShadeNotesCall (num 300) (num 250), Translate (num 0)]"
    by (simp add: scroll_def Let_def shadeNotes_calls js_sub_def js_neg_def)
  moreover have "calls demo_ticked =
       calls (animate demo_loaded (num 100))
         @ [Translate (num 0), ShadeNotesCall (num 300) (num 200), Translate (num 0)]"
    by (simp add: demo_ticked_def animate_def [of "animate demo_loaded (num 100)"] Let_def
          shadeNotes_calls js_mul_def js_neg_def)
  ultimately show ?thesis by simp
qed

section \<open>Clearing the selection\<close>

text \<open>
  C6. The clear button runs \<open>setSelection(null)\<close> inside a React event handler. With the
  selection 1000 ms to 2000 ms and \<open>props.saveData\<close> supplied, the four selection fields
  end at the unset values (-1, -1, 0, 0), and the persistence callback is called twice:
  once through \<open>this.saveData\<close> with the merged snapshot and once more directly.
\<close>

theorem clear_selection_persists_twice:
  "props_saveData demo_selected
   \<and> prop_get (state demo_selected) ''selectionStartMs'' = num 1000
   \<and> prop_get (state (react_event (setSelection None) demo_selected)) ''selectionStartMs''
       = num (- 1)
   \<and> prop_get (state (react_event (setSelection None) demo_selected)) ''selectionEndMs''
       = num (- 1)
   \<and> prop_get (state (react_event (setSelection None) demo_selected)) ''selectionStartPulse''
       = num 0
   \<and> prop_get (state (react_event (setSelection None) demo_selected)) ''selectionEndPulse''
       = num 0
   \<and> length (persisted demo_selected) = 0
   \<and> length (persisted (react_event (setSelection None) demo_selected)) = 2"
proof -
  have "state (react_event (setSelection None) demo_selected) =
          state demo_selected ++ currentSelection None (demo_selected\<lparr>batching := True\<rparr>)"
    by (rule react_event_state) simp_all
  then have st: "state (react_event (setSelection None) demo_selected) =
          state demo_selected ++
            [''selectionStartMs'' \<mapsto> num (- 1), ''selectionEndMs'' \<mapsto> num (- 1),
             ''selectionStartPulse'' \<mapsto> num 0, ''selectionEndPulse'' \<mapsto> num 0]"
    by (simp only: currentSelection_clear)
  have "length (persisted (react_event (setSelection None) demo_selected)) = 2"
    by (simp add: setSelection_persisted)
  moreover have "prop_get (state (react_event (setSelection None) demo_selected)) k = v"
    if "[''selectionStartMs'' \<mapsto> num (- 1), ''selectionEndMs'' \<mapsto> num (- 1),
         ''selectionStartPulse'' \<mapsto> num 0, ''selectionEndPulse'' \<mapsto> num (0::rat)] k = Some v"
    for k v
    using that unfolding st by (simp add: prop_get_def map_add_def)
  ultimately show ?thesis by simp
qed

section \<open>No score loaded\<close>




lemma click_without_score: "sheetMusic s = None \<Longrightarrow> click s x y = Inl TypeError"
  by (simp add: click_def Let_def)

section \<open>Looping over the selection\<close>

text \<open>
  C8. noteOff asks the playback controller to seek to the selection's start time
  exactly when both selection times are at least 0 and the current time
  \<open>currentPulseTime / pulsesPerMs\<close> is greater than the end time. When a bound is unset,
  or the time does not exceed the end, it does nothing.
\<close>

theorem noteOff_loops_selection:
  "(js_ge (prop_get (state s) ''selectionStartMs'') (num 0)
      \<and> js_ge (prop_get (state s) ''selectionEndMs'') (num 0)
      \<and> js_gt (js_div (currentPulseTime s) (pulsesPerMs s))
            (prop_get (state s) ''selectionEndMs'')
    \<longrightarrow> noteOff s =
          s\<lparr>calls := calls s @ [SetCurrentMs (prop_get (state s) ''selectionStartMs'')]\<rparr>)
   \<and> (\<not> (js_ge (prop_get (state s) ''selectionStartMs'') (num 0)
           \<and> js_ge (prop_get (state s) ''selectionEndMs'') (num 0))
        \<longrightarrow> noteOff s = s)
   \<and> (\<not> js_gt (js_div (currentPulseTime s) (pulsesPerMs s))
            (prop_get (state s) ''selectionEndMs'')
        \<longrightarrow> noteOff s = s)"
  by (simp add: noteOff_def emit_def)

text \<open>With the selection 1000 ms to 2000 ms: at 2100 ms the seek to 1000 is issued, at
  1500 ms it is not, and with no selection it is not.\<close>

theorem noteOff_loops_selection_witness:
  "js_ge (prop_get (state (animate demo_selected (num 2100))) ''selectionStartMs'') (num 0)
   \<and> js_ge (prop_get (state (animate demo_selected (num 2100))) ''selectionEndMs'') (num 0)
   \<and> js_gt (js_div (currentPulseTime (animate demo_selected (num 2100)))
              (pulsesPerMs (animate demo_selected (num 2100))))
         (prop_get (state (animate demo_selected (num 2100))) ''selectionEndMs'')
   \<and> calls (noteOff (animate demo_selected (num 2100))) =
       calls (animate demo_selected (num 2100)) @ [SetCurrentMs (num 1000)]
   \<and> \<not> js_gt (js_div (currentPulseTime (animate demo_selected (num 1500)))
              (pulsesPerMs (animate demo_selected (num 1500))))
         (prop_get (state (animate demo_selected (num 1500))) ''selectionEndMs'')
   \<and> noteOff (animate demo_selected (num 1500)) = animate demo_selected (num 1500)
   \<and> \<not> js_ge (prop_get (state (animate demo_loaded (num 2100))) ''selectionEndMs'') (num 0)
   \<and> noteOff (animate demo_loaded (num 2100)) = animate demo_loaded (num 2100)"
proof -
  have past: "js_ge (prop_get (state (animate demo_selected (num 2100))) ''selectionStartMs'')
                (num 0)
      \<and> js_ge (prop_get (state (animate demo_selected (num 2100))) ''selectionEndMs'') (num 0)
      \<and> js_gt (js_div (currentPulseTime (animate demo_selected (num 2100)))
              (pulsesPerMs (animate demo_selected (num 2100))))
            (prop_get (state (animate demo_selected (num 2100))) ''selectionEndMs'')"
    by (simp add: js_ge_def js_gt_def js_div_def js_mul_def)
  have before: "\<not> js_gt (js_div (currentPulseTime (animate demo_selected (num 1500)))
              (pulsesPerMs (animate demo_selected (num 1500))))
         (prop_get (state (animate demo_selected (num 1500))) ''selectionEndMs'')"
    by (simp add: js_gt_def js_div_def js_mul_def)
  have unset: "\<not> (js_ge (prop_get (state (animate demo_loaded (num 2100))) ''selectionStartMs'')
                   (num 0)
      \<and> js_ge (prop_get (state (animate demo_loaded (num 2100))) ''selectionEndMs'') (num 0))"
    by (simp add: js_ge_def)
  have "calls (noteOff (animate demo_selected (num 2100))) =
       calls (animate demo_selected (num 2100)) @ [SetCurrentMs (num 1000)]"
    using past noteOff_loops_selection [of "animate demo_selected (num 2100)"] by simp
  moreover have "noteOff (animate demo_selected (num 1500)) = animate demo_selected (num 1500)"
    using before noteOff_loops_selection [of "animate demo_selected (num 1500)"] by blast
  moreover have "noteOff (animate demo_loaded (num 2100)) = animate demo_loaded (num 2100)"
    using unset noteOff_loops_selection [of "animate demo_loaded (num 2100)"] by blast
  moreover have "\<not> js_ge (prop_get (state (animate demo_loaded (num 2100))) ''selectionEndMs'')
                    (num 0)"
    by (simp add: js_ge_def)
  ultimately show ?thesis using past before by blast
qed

section \<open>Clicking on the score\<close>

text \<open>
  C9. With a score loaded, a click returns normally and its calls are, in order: clear
  the overlay, \<open>setCurrentMs(clicked pulse / pulsesPerMs)\<close>, then the shading of
  (clicked pulse, raw pulse minus one measure). The clicked pulse is the renderer's
  pulse for the point, less one measure when it lies beyond the last pulse. The click
  only requests the state \<open>isSelecting\<close>, \<open>lastClickMs\<close>, \<open>lastClickPulse\<close>: the four
  selection fields and the renderer's selection stay as they were, so the seek comes
  before any bound is marked.
\<close>

theorem click_seeks_before_selection:
  assumes "sheetMusic s = Some sm"
  shows "let raw = PulseTimeForPoint sm x y;
             clicked = (if js_gt raw (totalPulses s) then js_sub raw (measure_pulses s)
                        else raw);
             ms = js_div clicked (pulsesPerMs s);
             patch = [''isSelecting'' \<mapsto> Boolean True, ''lastClickMs'' \<mapsto> ms,
                      ''lastClickPulse'' \<mapsto> clicked]
         in \<exists>s'. click s x y = Inr s'
              \<and> calls s' =
                  calls s @ [ClearRect (canvasShadeNotes_width s) (canvasShadeNotes_height s),
                             SetCurrentMs ms,
                             Translate (js_neg (scrollTop s)),
                             ShadeNotesCall clicked (js_sub raw (measure_pulses s)),
                             Translate (scrollTop s)]
              \<and> sheetMusic s' = Some sm
              \<and> state s' = (if batching s then state s else state s ++ patch)
              \<and> pending s' = (if batching s then pending s @ [patch] else pending s)
              \<and> prop_get (state s') ''selectionStartMs'' = prop_get (state s) ''selectionStartMs''
              \<and> prop_get (state s') ''selectionEndMs'' = prop_get (state s) ''selectionEndMs''
              \<and> prop_get (state s') ''selectionStartPulse''
                  = prop_get (state s) ''selectionStartPulse''
              \<and> prop_get (state s') ''selectionEndPulse''
                  = prop_get (state s) ''selectionEndPulse''"
  using assms
  by (simp add: click_def Let_def shadeNotes_calls setState_state prop_get_def map_add_def)

text \<open>A click at (10, 100) maps to pulse 500: the controller is sent to 250 ms and the
  selection start is still unset.\<close>

theorem click_seeks_before_selection_witness:
  "sheetMusic demo_loaded = Some demo_sheet
   \<and> (\<exists>s'. click demo_loaded (num 10) (num 100) = Inr s'
          \<and> calls s' =
              calls demo_loaded @ [ClearRect (num 800) (num 600), SetCurrentMs (num 250),
                                   Translate (num 0), ShadeNotesCall (num 500) (num 450),
                                   Translate (num 0)]
          \<and> prop_get (state s') ''lastClickPulse'' = num 500
          \<and> prop_get (state s') ''selectionStartMs'' = num (- 1))"
proof -
  have sheet: "sheetMusic demo_loaded = Some demo_sheet" by simp
  have raw: "PulseTimeForPoint demo_sheet (num 10) (num 100) = num 500"
    by (simp add: demo_sheet_def js_mul_def)
  from click_seeks_before_selection [OF sheet, of "num 10" "num 100"]
  obtain s' where c: "click demo_loaded (num 10) (num 100) = Inr s'"
    and calls: "calls s' =
              calls demo_loaded @ [ClearRect (num 800) (num 600), SetCurrentMs (num 250),
                                   Translate (num 0), ShadeNotesCall (num 500) (num 450),
                                   Translate (num 0)]"
    and st: "state s' = state demo_loaded ++ [''isSelecting'' \<mapsto> Boolean True,
               ''lastClickMs'' \<mapsto> num 250, ''lastClickPulse'' \<mapsto> num 500]"
    and sel: "prop_get (state s') ''selectionStartMs''
                = prop_get (state demo_loaded) ''selectionStartMs''"
    unfolding Let_def raw
    by (auto simp add: js_gt_def js_div_def js_sub_def js_neg_def)
  have "prop_get (state s') ''lastClickPulse'' = num 500"
    unfolding st by (simp add: prop_get_def)
  moreover have "prop_get (state s') ''selectionStartMs'' = num (- 1)"
    using sel by simp
  ultimately show ?thesis using sheet c calls by blast
qed

section \<open>Updating the selection\<close>

text \<open>
  C10, as the code has it. With no score loaded updateSelection does nothing. With a
  score loaded, every call of updateSelection writes the two pulses of its argument
  into the renderer, calls \<open>setCurrentMs(this.state.selectionStartMs)\<close> with the start
  time the component state holds at that moment, and repaints the sheet (fill, OnPaint,
  clear the overlay, shade); the same holds through initSheetMusic, setSelection and
  loadData. When React defers setState (inside its event handlers, where the clear and
  mark buttons run), setSelection and loadData seek with the start time from before the
  update; when setState applies at once, they seek with the merged state's start time.
\<close>

theorem updateSelection_seeks_and_repaints:
  "(sheetMusic s = None \<longrightarrow> updateSelection s sel = s)
   \<and> (\<forall>sm. sheetMusic s = Some sm \<longrightarrow>
        (let paint = [FillRect (canvasMain_width s) (canvas_size 150 (Height sm)),
                      OnPaint (Width sm) (Height sm),
                      ClearRect (canvasShadeNotes_width s) (canvasShadeNotes_height s),
                      Translate (js_neg (scrollTop s)),
                      ShadeNotesCall (currentPulseTime s)
                        (js_sub (currentPulseTime s) (measure_pulses s)),
                      Translate (scrollTop s)];
             seek = SetCurrentMs (prop_get (state s) ''selectionStartMs'')
         in sheetMusic (updateSelection s sel) =
              Some (sm\<lparr>SelectionStartPulse := prop_get sel ''selectionStartPulse'',
                        SelectionEndPulse := prop_get sel ''selectionEndPulse''\<rparr>)
            \<and> calls (updateSelection s sel) = calls s @ seek # paint
            \<and> calls (initSheetMusic s innerHeight rectTop) =
                calls s @ [seek,
                           FillRect (canvas_size 300 (Width sm)) (canvas_size 150 (Height sm)),
                           OnPaint (Width sm) (Height sm),
                           ClearRect (canvas_size 300 (Width sm))
                             (canvas_size 150 (js_sub innerHeight rectTop)),
                           Translate (js_neg (scrollTop s)),
                           ShadeNotesCall (currentPulseTime s)
                             (js_sub (currentPulseTime s) (measure_pulses s)),
                           Translate (scrollTop s)]
            \<and> (batching s \<longrightarrow>
                 take (length (calls s) + 7) (calls (setSelection name s)) = calls s @ seek # paint
                 \<and> calls (loadData s data) = calls s @ seek # paint)
            \<and> (\<not> batching s \<longrightarrow>
                 take (length (calls s) + 7) (calls (setSelection name s)) =
                   calls s @ SetCurrentMs (prop_get (state s ++ currentSelection name s)
                                             ''selectionStartMs'') # paint
                 \<and> calls (loadData s data) =
                   calls s @ SetCurrentMs (prop_get (state s ++ data) ''selectionStartMs'')
                             # paint)))"
proof -
  have "sheetMusic s = None \<longrightarrow> updateSelection s sel = s"
    by (simp add: updateSelection_def)
  then show ?thesis
    by (simp add: Let_def updateSelection_sheetMusic updateSelection_calls initSheetMusic_calls
          setSelection_calls loadData_def setState_state)
qed

text \<open>With no score nothing happens. Inside a handler, with the selection starting at
  1000 ms, clearing seeks to 1000 although the cleared start is -1, and loading a start
  of 5000 seeks to 1000 too. Outside a handler, loading a start of 5000 seeks to 5000.\<close>

theorem updateSelection_seeks_and_repaints_witness:
  "sheetMusic demo_unloaded = None
   \<and> updateSelection demo_unloaded [''selectionStartPulse'' \<mapsto> num 2000] = demo_unloaded
   \<and> sheetMusic (demo_selected\<lparr>batching := True\<rparr>) =
     Some (demo_sheet\<lparr>SelectionStartPulse := num 2000, SelectionEndPulse := num 4000\<rparr>)
   \<and> batching (demo_selected\<lparr>batching := True\<rparr>)
   \<and> prop_get (currentSelection None (demo_selected\<lparr>batching := True\<rparr>))
         ''selectionStartMs'' = num (- 1)
   \<and> take (length (calls demo_selected) + 7)
         (calls (setSelection None (demo_selected\<lparr>batching := True\<rparr>))) =
       calls demo_selected @
         [SetCurrentMs (num 1000), FillRect (num 800) (num 2000), OnPaint (num 800) (num 2000),
          ClearRect (num 800) (num 600), Translate (num 0),
          ShadeNotesCall Undefined (Number NaN), Translate (num 0)]
   \<and> calls (loadData (demo_selected\<lparr>batching := True\<rparr>)
               [''selectionStartMs'' \<mapsto> num 5000, ''selectionStartPulse'' \<mapsto> num 10000]) =
       calls demo_selected @
         [SetCurrentMs (num 1000), FillRect (num 800) (num 2000), OnPaint (num 800) (num 2000),
          ClearRect (num 800) (num 600), Translate (num 0),
          ShadeNotesCall Undefined (Number NaN), Translate (num 0)]
   \<and> sheetMusic (updateSelection (demo_selected\<lparr>batching := True\<rparr>)
               [''selectionStartMs'' \<mapsto> num 5000, ''selectionStartPulse'' \<mapsto> num 10000]) =
       Some (demo_sheet\<lparr>SelectionStartPulse := num 10000, SelectionEndPulse := Undefined\<rparr>)
   \<and> \<not> batching demo_selected
   \<and> calls (loadData demo_selected
               [''selectionStartMs'' \<mapsto> num 5000, ''selectionStartPulse'' \<mapsto> num 10000]) =
       calls demo_selected @
         [SetCurrentMs (num 5000), FillRect (num 800) (num 2000), OnPaint (num 800) (num 2000),
          ClearRect (num 800) (num 600), Translate (num 0),
          ShadeNotesCall Undefined (Number NaN), Translate (num 0)]"
proof -
  let ?s = "demo_selected\<lparr>batching := True\<rparr>"
  let ?d = "[''selectionStartMs'' \<mapsto> num 5000, ''selectionStartPulse'' \<mapsto> num (10000::rat)]"
  have none: "sheetMusic demo_unloaded = None" by simp
  have sheet: "sheetMusic ?s =
     Some (demo_sheet\<lparr>SelectionStartPulse := num 2000, SelectionEndPulse := num 4000\<rparr>)"
    by simp
  have sheet': "sheetMusic demo_selected =
     Some (demo_sheet\<lparr>SelectionStartPulse := num 2000, SelectionEndPulse := num 4000\<rparr>)"
    by simp
  have cleared: "prop_get (currentSelection None ?s) ''selectionStartMs'' = num (- 1)"
    by (simp add: currentSelection_clear prop_get_update)
  have a: "updateSelection demo_unloaded [''selectionStartPulse'' \<mapsto> num 2000] = demo_unloaded"
    using none updateSelection_seeks_and_repaints [of demo_unloaded "[''selectionStartPulse'' \<mapsto> num 2000]"] by blast
  note b = updateSelection_seeks_and_repaints [of ?s ?d "num 600" "num 0" None ?d, THEN conjunct2, rule_format, OF sheet]
  note c = updateSelection_seeks_and_repaints [of demo_selected ?d "num 600" "num 0" None ?d, THEN conjunct2, rule_format,
      OF sheet']
  have c': "calls (loadData demo_selected ?d) =
       calls demo_selected @
         [SetCurrentMs (num 5000), FillRect (num 800) (num 2000), OnPaint (num 800) (num 2000),
          ClearRect (num 800) (num 600), Translate (num 0),
          ShadeNotesCall Undefined (Number NaN), Translate (num 0)]"
    using c by (simp add: Let_def demo_sheet_def js_neg_def js_sub_def prop_get_def)
  show ?thesis
    using none a sheet cleared b c'
    by (simp add: Let_def demo_sheet_def js_neg_def js_sub_def prop_get_update)
qed

text \<open>C10 as stated fails: with no score loaded updateSelection and loadData issue no
  seek, and a selection loaded while setState applies at once seeks with the new start
  time 5000, not with the previous 1000.\<close>

theorem updateSelection_seek_counterexample:
  "sheetMusic demo_unloaded = None
   \<and> calls (updateSelection demo_unloaded [''selectionStartPulse'' \<mapsto> num 2000])
       = calls demo_unloaded
   \<and> calls (loadData demo_unloaded [''selectionStartMs'' \<mapsto> num 5000])
       = calls demo_unloaded
   \<and> \<not> batching demo_selected
   \<and> prop_get (state demo_selected) ''selectionStartMs'' = num 1000
   \<and> calls (loadData demo_selected
               [''selectionStartMs'' \<mapsto> num 5000, ''selectionStartPulse'' \<mapsto> num 10000]) =
       calls demo_selected @
         [SetCurrentMs (num 5000), FillRect (num 800) (num 2000), OnPaint (num 800) (num 2000),
          ClearRect (num 800) (num 600), Translate (num 0),
          ShadeNotesCall Undefined (Number NaN), Translate (num 0)]"
proof -
  have "calls (updateSelection demo_unloaded [''selectionStartPulse'' \<mapsto> num 2000])
       = calls demo_unloaded"
    by (simp add: updateSelection_def)
  moreover have "calls (loadData demo_unloaded [''selectionStartMs'' \<mapsto> num 5000])
       = calls demo_unloaded"
    by (simp add: loadData_def updateSelection_def)
  moreover have "calls (loadData demo_selected
               [''selectionStartMs'' \<mapsto> num 5000, ''selectionStartPulse'' \<mapsto> num 10000]) =
       calls demo_selected @
         [SetCurrentMs (num 5000), FillRect (num 800) (num 2000), OnPaint (num 800) (num 2000),
          ClearRect (num 800) (num 600), Translate (num 0),
          ShadeNotesCall Undefined (Number NaN), Translate (num 0)]"
    by (simp add: loadData_def setState_state updateSelection_calls demo_sheet_def
          js_neg_def js_sub_def prop_get_def)
  ultimately show ?thesis by simp
qed

end
